theory Spec2Isabelle
  imports Main
begin

section \<open>The array module of the stage0 library (init.data.array.basic)\<close>

text \<open>
  The module is compiler output over the runtime's objects. Every value is an \<open>obj*\<close>;
  the embedding gives each one the type the code uses it at:
  \<^item> a natural number object (\<open>mk_nat_obj\<close>, \<open>nat_add\<close>, \<open>nat_sub\<close>, \<open>nat_dec_lt\<close>,
    \<open>nat_dec_le\<close>, \<open>nat_dec_eq\<close>) is a \<open>nat\<close>: the runtime's naturals are unbounded,
    \<open>nat_sub\<close> truncates at zero as HOL's \<open>-\<close> does, and a decision \<open>uint8\<close> that is
    tested with \<open>== 0\<close> is the negation of the HOL comparison;
  \<^item> a list object is a HOL list: constructor tag 0 (\<open>box(0)\<close>) is \<open>[]\<close>, and a
    constructor object of tag 1 with the two fields head and tail is \<open>#\<close>;
  \<^item> a closure applied with \<open>apply_1\<close>, \<open>apply_2\<close>, \<open>apply_3\<close> is a HOL function applied
    to its arguments in the same order;
  \<^item> \<open>inc\<close>, \<open>dec\<close> and the \<open>alloc_closure\<close> wrappers only manage reference counts and
    partial application, and have no counterpart in a value semantics.
  Variables keep the names the compiler gave them (\<open>x_0\<close>, \<open>x_1\<close>, ...).
\<close>

subsection \<open>The array primitive\<close>

datatype 'a array = Array (data: "'a list")

text \<open>
  Modelled from the spec: the runtime's array primitive (\<open>runtime/object.h\<close>) is not part
  of the module. An array is a 0-indexed sequence with a length. \<open>array_sz\<close> and
  \<open>array_get_size\<close> both give the current element count. \<open>array_read\<close> and \<open>array_write\<close>
  have the precondition \<open>i < length\<close> and are undefined otherwise: the model returns
  \<open>None\<close> there, so that a traversal that left the range would be visible in its result.
  \<open>array_push\<close> appends one element, \<open>mk_nil_array\<close> is the array of length 0.
\<close>

definition array_sz :: "'a array \<Rightarrow> nat" where
  "array_sz a = length (data a)"

definition array_get_size :: "'a array \<Rightarrow> nat" where
  "array_get_size a = length (data a)"

definition array_read :: "'a array \<Rightarrow> nat \<Rightarrow> 'a option" where
  "array_read a i = (if i < length (data a) then Some (data a ! i) else None)"

definition array_write :: "'a array \<Rightarrow> nat \<Rightarrow> 'a \<Rightarrow> 'a array option" where
  "array_write a i v = (if i < length (data a) then Some (Array ((data a)[i := v])) else None)"

definition array_push :: "'a array \<Rightarrow> 'a \<Rightarrow> 'a array" where
  "array_push a v = Array (data a @ [v])"

definition mk_nil_array :: "'a array" where
  "mk_nil_array = Array []"

definition l_array_nil___closed__1 :: "'a array" where
  "l_array_nil___closed__1 = mk_nil_array"

subsection \<open>Forward traversal\<close>

text \<open>
  The loop re-reads the size of \<open>x_0\<close> on every step and stops when the index \<open>x_2\<close> has
  reached it; otherwise it reads the element and applies the callable to index, element
  and accumulator.
\<close>

function l___private_init_data_array_basic_1__iterate__aux___main___rarg ::
  "'a array \<Rightarrow> (nat \<Rightarrow> 'a \<Rightarrow> 'b \<Rightarrow> 'b) \<Rightarrow> nat \<Rightarrow> 'b \<Rightarrow> 'b option" where
  "l___private_init_data_array_basic_1__iterate__aux___main___rarg x_0 x_1 x_2 x_3 =
     (let x_5 = array_sz x_0 in
      if \<not> x_2 < x_5 then Some x_3
      else
        let x_12 = x_2 + 1 in
        case array_read x_0 x_2 of
          None \<Rightarrow> None
        | Some x_13 \<Rightarrow>
            let x_15 = x_1 x_2 x_13 x_3 in
            l___private_init_data_array_basic_1__iterate__aux___main___rarg x_0 x_1 x_12 x_15)"
  by pat_completeness auto
termination
  by (relation "measure (\<lambda>(x_0, x_1, x_2, x_3). array_sz x_0 - x_2)") auto

definition l_array_iterate___rarg ::
  "'a array \<Rightarrow> 'b \<Rightarrow> (nat \<Rightarrow> 'a \<Rightarrow> 'b \<Rightarrow> 'b) \<Rightarrow> 'b option" where
  "l_array_iterate___rarg x_0 x_1 x_2 =
     (let x_3 = 0 in
      l___private_init_data_array_basic_1__iterate__aux___main___rarg x_0 x_2 x_3 x_1)"

text \<open>
  The variant of the forward engine that the comparison with the reverse engine speaks of:
  the length is captured once at entry, and the loop counts up to that fixed bound without
  looking at the array's size again.
\<close>

function iterate_aux_captured_bound ::
  "'a array \<Rightarrow> (nat \<Rightarrow> 'a \<Rightarrow> 'b \<Rightarrow> 'b) \<Rightarrow> nat \<Rightarrow> nat \<Rightarrow> 'b \<Rightarrow> 'b option" where
  "iterate_aux_captured_bound a f bound i acc =
     (if \<not> i < bound then Some acc
      else
        case array_read a i of
          None \<Rightarrow> None
        | Some e \<Rightarrow> iterate_aux_captured_bound a f bound (i + 1) (f i e acc))"
  by pat_completeness auto
termination
  by (relation "measure (\<lambda>(a, f, bound, i, acc). bound - i)") auto

definition iterate_captured_bound ::
  "'a array \<Rightarrow> 'b \<Rightarrow> (nat \<Rightarrow> 'a \<Rightarrow> 'b \<Rightarrow> 'b) \<Rightarrow> 'b option" where
  "iterate_captured_bound a z f = iterate_aux_captured_bound a f (array_get_size a) 0 z"

subsection \<open>Reverse traversal\<close>

text \<open>
  The counter \<open>x_2\<close> starts at the size read once by the caller and is only decremented.
  The slot \<open>x_3\<close> carries a computationally irrelevant argument: the caller passes
  \<open>box(0)\<close> (\<open>None\<close>), the loop overwrites it with \<open>x_0\<close> (\<open>Some x_0\<close>), and nothing
  reads it.
\<close>

fun l___private_init_data_array_basic_2__rev__iterate__aux___main___rarg ::
  "'a array \<Rightarrow> (nat \<Rightarrow> 'a \<Rightarrow> 'b \<Rightarrow> 'b) \<Rightarrow> nat \<Rightarrow> 'a array option \<Rightarrow> 'b \<Rightarrow> 'b option" where
  "l___private_init_data_array_basic_2__rev__iterate__aux___main___rarg x_0 x_1 x_2 x_3 x_4 =
     (if \<not> x_2 = 0 then
        let x_8 = x_2 - 1 in
        case array_read x_0 x_8 of
          None \<Rightarrow> None
        | Some x_10 \<Rightarrow>
            let x_13 = x_1 x_8 x_10 x_4 in
            l___private_init_data_array_basic_2__rev__iterate__aux___main___rarg x_0 x_1 x_8 (Some x_0) x_13
      else Some x_4)"

definition l_array_rev__iterate___rarg ::
  "'a array \<Rightarrow> 'b \<Rightarrow> (nat \<Rightarrow> 'a \<Rightarrow> 'b \<Rightarrow> 'b) \<Rightarrow> 'b option" where
  "l_array_rev__iterate___rarg x_0 x_1 x_2 =
     (let x_3 = array_get_size x_0 in
      l___private_init_data_array_basic_2__rev__iterate__aux___main___rarg x_0 x_2 x_3 None x_1)"

subsection \<open>Folds\<close>

function l___private_init_data_array_basic_1__iterate__aux___main___at_array_foldl___spec__1___rarg ::
  "'a array \<Rightarrow> ('a \<Rightarrow> 'b \<Rightarrow> 'b) \<Rightarrow> 'a array \<Rightarrow> nat \<Rightarrow> 'b \<Rightarrow> 'b option" where
  "l___private_init_data_array_basic_1__iterate__aux___main___at_array_foldl___spec__1___rarg x_0 x_1 x_2 x_3 x_4 =
     (let x_6 = array_sz x_2 in
      if \<not> x_3 < x_6 then Some x_4
      else
        let x_13 = x_3 + 1 in
        case array_read x_2 x_3 of
          None \<Rightarrow> None
        | Some x_14 \<Rightarrow>
            let x_17 = x_1 x_14 x_4 in
            l___private_init_data_array_basic_1__iterate__aux___main___at_array_foldl___spec__1___rarg x_0 x_1 x_2 x_13 x_17)"
  by pat_completeness auto
termination
  by (relation "measure (\<lambda>(x_0, x_1, x_2, x_3, x_4). array_sz x_2 - x_3)") auto

definition l_array_foldl___rarg :: "'a array \<Rightarrow> 'b \<Rightarrow> ('a \<Rightarrow> 'b \<Rightarrow> 'b) \<Rightarrow> 'b option" where
  "l_array_foldl___rarg x_0 x_1 x_2 =
     (let x_3 = 0 in
      l___private_init_data_array_basic_1__iterate__aux___main___at_array_foldl___spec__1___rarg x_0 x_2 x_0 x_3 x_1)"

fun l___private_init_data_array_basic_2__rev__iterate__aux___main___at_array_rev__foldl___spec__1___rarg ::
  "'a array \<Rightarrow> ('a \<Rightarrow> 'b \<Rightarrow> 'b) \<Rightarrow> 'a array \<Rightarrow> nat \<Rightarrow> 'a array option \<Rightarrow> 'b \<Rightarrow> 'b option" where
  "l___private_init_data_array_basic_2__rev__iterate__aux___main___at_array_rev__foldl___spec__1___rarg x_0 x_1 x_2 x_3 x_4 x_5 =
     (if \<not> x_3 = 0 then
        let x_9 = x_3 - 1 in
        case array_read x_2 x_9 of
          None \<Rightarrow> None
        | Some x_11 \<Rightarrow>
            let x_13 = x_1 x_11 x_5 in
            l___private_init_data_array_basic_2__rev__iterate__aux___main___at_array_rev__foldl___spec__1___rarg x_0 x_1 x_2 x_9 (Some x_0) x_13
      else Some x_5)"

definition l_array_rev__foldl___rarg :: "'a array \<Rightarrow> 'b \<Rightarrow> ('a \<Rightarrow> 'b \<Rightarrow> 'b) \<Rightarrow> 'b option" where
  "l_array_rev__foldl___rarg x_0 x_1 x_2 =
     (let x_3 = array_get_size x_0 in
      l___private_init_data_array_basic_2__rev__iterate__aux___main___at_array_rev__foldl___spec__1___rarg x_0 x_2 x_0 x_3 None x_1)"

subsection \<open>Conversion to a list\<close>

fun l___private_init_data_array_basic_2__rev__iterate__aux___main___at_array_to__list___spec__1___rarg ::
  "'a array \<Rightarrow> 'a array \<Rightarrow> nat \<Rightarrow> 'a array option \<Rightarrow> 'a list \<Rightarrow> 'a list option" where
  "l___private_init_data_array_basic_2__rev__iterate__aux___main___at_array_to__list___spec__1___rarg x_0 x_1 x_2 x_3 x_4 =
     (if \<not> x_2 = 0 then
        let x_8 = x_2 - 1 in
        case array_read x_1 x_8 of
          None \<Rightarrow> None
        | Some x_10 \<Rightarrow>
            let x_11 = x_10 # x_4 in
            l___private_init_data_array_basic_2__rev__iterate__aux___main___at_array_to__list___spec__1___rarg x_0 x_1 x_8 (Some x_0) x_11
      else Some x_4)"

definition l_array_to__list___rarg :: "'a array \<Rightarrow> 'a list option" where
  "l_array_to__list___rarg x_0 =
     (let x_1 = [];
          x_2 = array_get_size x_0 in
      l___private_init_data_array_basic_2__rev__iterate__aux___main___at_array_to__list___spec__1___rarg x_0 x_0 x_2 None x_1)"

subsection \<open>Element-wise combinators\<close>

function l___private_init_data_array_basic_1__iterate__aux___main___at_array_foreach___spec__1___rarg ::
  "'a array \<Rightarrow> (nat \<Rightarrow> 'a \<Rightarrow> 'a) \<Rightarrow> 'a array \<Rightarrow> nat \<Rightarrow> 'a array \<Rightarrow> 'a array option" where
  "l___private_init_data_array_basic_1__iterate__aux___main___at_array_foreach___spec__1___rarg x_0 x_1 x_2 x_3 x_4 =
     (let x_6 = array_sz x_2 in
      if \<not> x_3 < x_6 then Some x_4
      else
        let x_13 = x_3 + 1 in
        case array_read x_2 x_3 of
          None \<Rightarrow> None
        | Some x_14 \<Rightarrow>
            let x_17 = x_1 x_3 x_14 in
            (case array_write x_4 x_3 x_17 of
               None \<Rightarrow> None
             | Some x_18 \<Rightarrow>
                 l___private_init_data_array_basic_1__iterate__aux___main___at_array_foreach___spec__1___rarg x_0 x_1 x_2 x_13 x_18))"
  by pat_completeness auto
termination
  by (relation "measure (\<lambda>(x_0, x_1, x_2, x_3, x_4). array_sz x_2 - x_3)") auto

definition l_array_foreach___rarg :: "'a array \<Rightarrow> (nat \<Rightarrow> 'a \<Rightarrow> 'a) \<Rightarrow> 'a array option" where
  "l_array_foreach___rarg x_0 x_1 =
     (let x_2 = 0 in
      l___private_init_data_array_basic_1__iterate__aux___main___at_array_foreach___spec__1___rarg x_0 x_1 x_0 x_2 x_0)"

function l___private_init_data_array_basic_1__iterate__aux___main___at_array_map___spec__1___rarg ::
  "('a \<Rightarrow> 'a) \<Rightarrow> 'a array \<Rightarrow> 'a array \<Rightarrow> nat \<Rightarrow> 'a array \<Rightarrow> 'a array option" where
  "l___private_init_data_array_basic_1__iterate__aux___main___at_array_map___spec__1___rarg x_0 x_1 x_2 x_3 x_4 =
     (let x_6 = array_sz x_2 in
      if \<not> x_3 < x_6 then Some x_4
      else
        let x_13 = x_3 + 1 in
        case array_read x_2 x_3 of
          None \<Rightarrow> None
        | Some x_14 \<Rightarrow>
            let x_16 = x_0 x_14 in
            (case array_write x_4 x_3 x_16 of
               None \<Rightarrow> None
             | Some x_17 \<Rightarrow>
                 l___private_init_data_array_basic_1__iterate__aux___main___at_array_map___spec__1___rarg x_0 x_1 x_2 x_13 x_17))"
  by pat_completeness auto
termination
  by (relation "measure (\<lambda>(x_0, x_1, x_2, x_3, x_4). array_sz x_2 - x_3)") auto

definition l_array_map___rarg :: "('a \<Rightarrow> 'a) \<Rightarrow> 'a array \<Rightarrow> 'a array option" where
  "l_array_map___rarg x_0 x_1 =
     (let x_2 = 0 in
      l___private_init_data_array_basic_1__iterate__aux___main___at_array_map___spec__1___rarg x_0 x_1 x_1 x_2 x_1)"

text \<open>
  The two loops of \<open>map\<^sub>2\<close> (\<open>array_map_u_2082\<close>). Both walk \<open>x_3\<close> and write into \<open>x_5\<close>;
  the first reads its second operand from \<open>x_1\<close>, the second from \<open>x_2\<close>.
\<close>

function l___private_init_data_array_basic_1__iterate__aux___main___at_array_map_u_2082___spec__1___rarg ::
  "('a \<Rightarrow> 'a \<Rightarrow> 'a) \<Rightarrow> 'a array \<Rightarrow> 'a array \<Rightarrow> 'a array \<Rightarrow> nat \<Rightarrow> 'a array \<Rightarrow> 'a array option" where
  "l___private_init_data_array_basic_1__iterate__aux___main___at_array_map_u_2082___spec__1___rarg x_0 x_1 x_2 x_3 x_4 x_5 =
     (let x_7 = array_sz x_3 in
      if \<not> x_4 < x_7 then Some x_5
      else
        let x_14 = x_4 + 1 in
        case array_read x_3 x_4 of
          None \<Rightarrow> None
        | Some x_15 \<Rightarrow>
            (case array_read x_1 x_4 of
               None \<Rightarrow> None
             | Some x_16 \<Rightarrow>
                 let x_18 = x_0 x_16 x_15 in
                 (case array_write x_5 x_4 x_18 of
                    None \<Rightarrow> None
                  | Some x_19 \<Rightarrow>
                      l___private_init_data_array_basic_1__iterate__aux___main___at_array_map_u_2082___spec__1___rarg x_0 x_1 x_2 x_3 x_14 x_19)))"
  by pat_completeness auto
termination
  by (relation "measure (\<lambda>(x_0, x_1, x_2, x_3, x_4, x_5). array_sz x_3 - x_4)") auto

function l___private_init_data_array_basic_1__iterate__aux___main___at_array_map_u_2082___spec__2___rarg ::
  "('a \<Rightarrow> 'a \<Rightarrow> 'a) \<Rightarrow> 'a array \<Rightarrow> 'a array \<Rightarrow> 'a array \<Rightarrow> nat \<Rightarrow> 'a array \<Rightarrow> 'a array option" where
  "l___private_init_data_array_basic_1__iterate__aux___main___at_array_map_u_2082___spec__2___rarg x_0 x_1 x_2 x_3 x_4 x_5 =
     (let x_7 = array_sz x_3 in
      if \<not> x_4 < x_7 then Some x_5
      else
        let x_14 = x_4 + 1 in
        case array_read x_3 x_4 of
          None \<Rightarrow> None
        | Some x_15 \<Rightarrow>
            (case array_read x_2 x_4 of
               None \<Rightarrow> None
             | Some x_16 \<Rightarrow>
                 let x_18 = x_0 x_16 x_15 in
                 (case array_write x_5 x_4 x_18 of
                    None \<Rightarrow> None
                  | Some x_19 \<Rightarrow>
                      l___private_init_data_array_basic_1__iterate__aux___main___at_array_map_u_2082___spec__2___rarg x_0 x_1 x_2 x_3 x_14 x_19)))"
  by pat_completeness auto
termination
  by (relation "measure (\<lambda>(x_0, x_1, x_2, x_3, x_4, x_5). array_sz x_3 - x_4)") auto

definition l_array_map_u_2082___rarg ::
  "('a \<Rightarrow> 'a \<Rightarrow> 'a) \<Rightarrow> 'a array \<Rightarrow> 'a array \<Rightarrow> 'a array option" where
  "l_array_map_u_2082___rarg x_0 x_1 x_2 =
     (let x_3 = array_get_size x_1;
          x_4 = array_get_size x_2 in
      if \<not> x_3 \<le> x_4 then
        let x_8 = 0 in
        l___private_init_data_array_basic_1__iterate__aux___main___at_array_map_u_2082___spec__1___rarg x_0 x_1 x_2 x_2 x_8 x_2
      else
        let x_14 = 0 in
        l___private_init_data_array_basic_1__iterate__aux___main___at_array_map_u_2082___spec__2___rarg x_0 x_1 x_2 x_1 x_14 x_1)"

subsection \<open>Conversion from a list\<close>

fun l_list_to__array__aux___main___rarg :: "'a list \<Rightarrow> 'a array \<Rightarrow> 'a array" where
  "l_list_to__array__aux___main___rarg [] x_1 = x_1"
| "l_list_to__array__aux___main___rarg (x_2 # x_4) x_1 =
     (let x_7 = array_push x_1 x_2 in
      l_list_to__array__aux___main___rarg x_4 x_7)"

definition l_list_to__array___rarg :: "'a list \<Rightarrow> 'a array" where
  "l_list_to__array___rarg x_0 =
     (let x_1 = l_array_nil___closed__1 in
      l_list_to__array__aux___main___rarg x_0 x_1)"

section \<open>Properties\<close>

text \<open>
  The loops are recursive equations of a function in terms of itself, so they are taken out
  of the simplifier's rules and unfolded one step at a time.
\<close>

declare l___private_init_data_array_basic_1__iterate__aux___main___rarg.simps [simp del]
declare iterate_aux_captured_bound.simps [simp del]
declare l___private_init_data_array_basic_2__rev__iterate__aux___main___rarg.simps [simp del]
declare l___private_init_data_array_basic_1__iterate__aux___main___at_array_foldl___spec__1___rarg.simps [simp del]
declare l___private_init_data_array_basic_2__rev__iterate__aux___main___at_array_rev__foldl___spec__1___rarg.simps [simp del]
declare l___private_init_data_array_basic_2__rev__iterate__aux___main___at_array_to__list___spec__1___rarg.simps [simp del]
declare l___private_init_data_array_basic_1__iterate__aux___main___at_array_foreach___spec__1___rarg.simps [simp del]
declare l___private_init_data_array_basic_1__iterate__aux___main___at_array_map___spec__1___rarg.simps [simp del]
declare l___private_init_data_array_basic_1__iterate__aux___main___at_array_map_u_2082___spec__1___rarg.simps [simp del]
declare l___private_init_data_array_basic_1__iterate__aux___main___at_array_map_u_2082___spec__2___rarg.simps [simp del]

subsection \<open>Left fold\<close>

text \<open>
  From index \<open>i\<close> on, the loop of \<open>foldl\<close> folds the remaining elements in index order,
  giving the callable the element first and the accumulator second.
\<close>

lemma foldl_spec_run:
  "l___private_init_data_array_basic_1__iterate__aux___main___at_array_foldl___spec__1___rarg x_0 f a i acc
     = Some (fold f (drop i (data a)) acc)"
proof (induction "length (data a) - i" arbitrary: i acc)
  case 0
  then show ?case
    by (subst l___private_init_data_array_basic_1__iterate__aux___main___at_array_foldl___spec__1___rarg.simps)
       (simp add: array_sz_def)
next
  case (Suc n)
  then have lt: "i < length (data a)" and rest: "n = length (data a) - Suc i"
    by simp_all
  have split: "drop i (data a) = data a ! i # drop (Suc i) (data a)"
    using lt by (simp add: Cons_nth_drop_Suc)
  show ?case
    by (subst l___private_init_data_array_basic_1__iterate__aux___main___at_array_foldl___spec__1___rarg.simps)
       (simp add: array_sz_def array_read_def lt split Suc.hyps(1) [OF rest] del: drop_Suc)
qed

lemma fold_flip_foldl: "fold f xs z = foldl (\<lambda>acc e. f e acc) z xs"
  by (induction xs arbitrary: z) simp_all

text \<open>
  C1, as stated: \<open>foldl\<close> would be the standard left fold
  \<open>f (... (f (f z a[0]) a[1]) ...) a[n-1]\<close>, the callable computing
  \<open>f accumulator element\<close>. It is not: with subtraction, the initial value 0 and the
  array \<open>[1, 2, 3]\<close> the code returns \<open>3 - (2 - (1 - 0)) = 2\<close>, and the standard left fold
  is \<open>((0 - 1) - 2) - 3 = -6\<close>.
\<close>

theorem foldl_standard_left_fold_counterexample:
  "l_array_foldl___rarg (Array [1, 2, 3 :: int]) 0 (-) \<noteq> Some (foldl (-) 0 [1, 2, 3])"
  by (simp add: l_array_foldl___rarg_def foldl_spec_run)

text \<open>
  C1, amended: for every array \<open>a\<close>, initial value \<open>z\<close> and binary function \<open>f\<close>,
  \<open>foldl\<close> returns the left fold over the elements of \<open>a\<close> in index order in which each
  step computes \<open>f element accumulator\<close>, that is
  \<open>f a[n-1] (... (f a[1] (f a[0] z)))\<close>.
\<close>

theorem foldl_left_fold_element_first:
  "l_array_foldl___rarg a z f = Some (foldl (\<lambda>acc e. f e acc) z (data a))"
  by (simp add: l_array_foldl___rarg_def foldl_spec_run fold_flip_foldl)

subsection \<open>Right fold\<close>

text \<open>
  With the counter at \<open>k\<close>, the loop of \<open>rev_foldl\<close> folds the first \<open>k\<close> elements from the
  right onto the accumulator.
\<close>

lemma rev_foldl_spec_run:
  "k \<le> length (data a) \<Longrightarrow>
   l___private_init_data_array_basic_2__rev__iterate__aux___main___at_array_rev__foldl___spec__1___rarg x_0 f a k e acc
     = Some (foldr f (take k (data a)) acc)"
proof (induction k arbitrary: e acc)
  case 0
  show ?case
    by (subst l___private_init_data_array_basic_2__rev__iterate__aux___main___at_array_rev__foldl___spec__1___rarg.simps)
       simp
next
  case (Suc k)
  then have lt: "k < length (data a)" by simp
  show ?case
    by (subst l___private_init_data_array_basic_2__rev__iterate__aux___main___at_array_rev__foldl___spec__1___rarg.simps)
       (simp add: array_read_def lt less_imp_le take_Suc_conv_app_nth Suc.IH)
qed

text \<open>
  C4: for every array \<open>a\<close>, initial value \<open>z\<close> and binary function \<open>f\<close>, \<open>rev_foldl\<close>
  returns the standard right fold \<open>f a[0] (f a[1] (... (f a[n-1] z)))\<close>; the callable
  is applied to the element and the accumulator, in this order, while the index descends.
\<close>

theorem rev_foldl_standard_right_fold:
  "l_array_rev__foldl___rarg a z f = Some (foldr f (data a) z)"
  by (simp add: l_array_rev__foldl___rarg_def array_get_size_def rev_foldl_spec_run)

subsection \<open>The list bridge\<close>

text \<open>
  With the counter at \<open>k\<close>, the loop of \<open>to_list\<close> has the elements from \<open>k\<close> on in the
  accumulator and puts the first \<open>k\<close> elements in front of them.
\<close>

lemma to_list_spec_run:
  "k \<le> length (data a) \<Longrightarrow>
   l___private_init_data_array_basic_2__rev__iterate__aux___main___at_array_to__list___spec__1___rarg x_0 a k e acc
     = Some (take k (data a) @ acc)"
proof (induction k arbitrary: e acc)
  case 0
  show ?case
    by (subst l___private_init_data_array_basic_2__rev__iterate__aux___main___at_array_to__list___spec__1___rarg.simps)
       simp
next
  case (Suc k)
  then have lt: "k < length (data a)" by simp
  show ?case
    by (subst l___private_init_data_array_basic_2__rev__iterate__aux___main___at_array_to__list___spec__1___rarg.simps)
       (simp add: array_read_def lt less_imp_le take_Suc_conv_app_nth Suc.IH)
qed

lemma to_list_data: "l_array_to__list___rarg a = Some (data a)"
  by (simp add: l_array_to__list___rarg_def array_get_size_def to_list_spec_run)

lemma to_array_aux_data:
  "l_list_to__array__aux___main___rarg l a = Array (data a @ l)"
  by (induction l arbitrary: a) (simp_all add: array_push_def)

lemma to_array_data: "l_list_to__array___rarg l = Array l"
  by (simp add: l_list_to__array___rarg_def l_array_nil___closed__1_def mk_nil_array_def
      to_array_aux_data)

text \<open>
  C5: converting a list to an array and back gives the same list.
\<close>

theorem to_list_of_to_array:
  "l_array_to__list___rarg (l_list_to__array___rarg l) = Some l"
  by (simp add: to_array_data to_list_data)

text \<open>
  C6: converting an array to a list and back gives an equal array.
\<close>

theorem to_array_of_to_list:
  "map_option l_list_to__array___rarg (l_array_to__list___rarg a) = Some a"
  by (simp add: to_array_data to_list_data)

text \<open>
  C7: \<open>to_list a\<close> is the list \<open>[a[0], a[1], ..., a[n-1]]\<close> in ascending index order, and
  the list of the empty array is empty. The loop above is the single descending pass: it
  conses the element at \<open>x_2 - 1\<close> onto the accumulator and never reverses.
\<close>

theorem to_list_ascending_order:
  "l_array_to__list___rarg a = Some (map (\<lambda>i. data a ! i) [0..<array_get_size a])
   \<and> l_array_to__list___rarg mk_nil_array = Some ([] :: 'b list)"
  by (simp add: to_list_data array_get_size_def map_nth mk_nil_array_def)

subsection \<open>Element-wise combinators\<close>

lemma take_Suc_update:
  "i < length xs \<Longrightarrow> take (Suc i) (xs[i := v]) = take i xs @ [v]"
  by (simp add: take_Suc_conv_app_nth)

text \<open>
  The loops that rewrite a buffer in place share one invariant: the output has the length
  of the array that is walked, its first \<open>i\<close> slots are final, and the slots from \<open>i\<close> on
  will hold the callable's results. Every read and every write is inside the range.
\<close>

lemma map_spec_run:
  "length (data out) = length (data src) \<Longrightarrow>
   l___private_init_data_array_basic_1__iterate__aux___main___at_array_map___spec__1___rarg f x_1 src i out
     = Some (Array (take i (data out) @ map f (drop i (data src))))"
proof (induction "length (data src) - i" arbitrary: i out)
  case 0
  then show ?case
    by (subst l___private_init_data_array_basic_1__iterate__aux___main___at_array_map___spec__1___rarg.simps)
       (simp add: array_sz_def)
next
  case (Suc n)
  then have lt: "i < length (data src)" and rest: "n = length (data src) - Suc i"
    by simp_all
  have lt_out: "i < length (data out)"
    using lt Suc.prems by simp
  have split: "drop i (data src) = data src ! i # drop (Suc i) (data src)"
    using lt by (simp add: Cons_nth_drop_Suc)
  have len: "length (data (Array ((data out)[i := f (data src ! i)]))) = length (data src)"
    using Suc.prems by simp
  show ?case
    by (subst l___private_init_data_array_basic_1__iterate__aux___main___at_array_map___spec__1___rarg.simps)
       (simp add: array_sz_def array_read_def array_write_def lt lt_out split
          Suc.hyps(1) [OF rest len] take_Suc_update del: drop_Suc)
qed

lemma map_data: "l_array_map___rarg f a = Some (Array (map f (data a)))"
  by (simp add: l_array_map___rarg_def map_spec_run)

lemma foreach_spec_run:
  "length (data out) = length (data src) \<Longrightarrow>
   l___private_init_data_array_basic_1__iterate__aux___main___at_array_foreach___spec__1___rarg x_0 f src i out
     = Some (Array (take i (data out) @ map (\<lambda>k. f k (data src ! k)) [i..<length (data src)]))"
proof (induction "length (data src) - i" arbitrary: i out)
  case 0
  then show ?case
    by (subst l___private_init_data_array_basic_1__iterate__aux___main___at_array_foreach___spec__1___rarg.simps)
       (simp add: array_sz_def)
next
  case (Suc n)
  then have lt: "i < length (data src)" and rest: "n = length (data src) - Suc i"
    by simp_all
  have lt_out: "i < length (data out)"
    using lt Suc.prems by simp
  have len: "length (data (Array ((data out)[i := f i (data src ! i)]))) = length (data src)"
    using Suc.prems by simp
  show ?case
    by (subst l___private_init_data_array_basic_1__iterate__aux___main___at_array_foreach___spec__1___rarg.simps)
       (simp add: array_sz_def array_read_def array_write_def lt lt_out upt_conv_Cons
          Suc.hyps(1) [OF rest len] take_Suc_update)
qed

lemma foreach_data:
  "l_array_foreach___rarg a f = Some (Array (map (\<lambda>k. f k (data a ! k)) [0..<length (data a)]))"
  by (simp add: l_array_foreach___rarg_def foreach_spec_run)

text \<open>
  C8: mapping the identity over an array returns an equal array, also for the empty array.
\<close>

theorem map_identity:
  "l_array_map___rarg id a = Some a
   \<and> l_array_map___rarg id mk_nil_array = Some (mk_nil_array :: 'b array)"
  by (simp add: map_data)

text \<open>
  C9: \<open>map\<close> and \<open>foreach\<close> return an array of the length of their input, for every
  function and every array: the loops only overwrite slots below the input's length.
\<close>

theorem map_foreach_preserve_length:
  "map_option array_get_size (l_array_map___rarg f a) = Some (array_get_size a)
   \<and> map_option array_get_size (l_array_foreach___rarg a g) = Some (array_get_size a)"
  by (simp add: map_data foreach_data array_get_size_def)

subsection \<open>Zip with truncation\<close>

lemma map2_spec_1_run:
  "length (data out) = length (data src) \<Longrightarrow> length (data src) \<le> length (data x_1) \<Longrightarrow>
   l___private_init_data_array_basic_1__iterate__aux___main___at_array_map_u_2082___spec__1___rarg f x_1 x_2 src i out
     = Some (Array (take i (data out)
          @ map (\<lambda>k. f (data x_1 ! k) (data src ! k)) [i..<length (data src)]))"
proof (induction "length (data src) - i" arbitrary: i out)
  case 0
  then show ?case
    by (subst l___private_init_data_array_basic_1__iterate__aux___main___at_array_map_u_2082___spec__1___rarg.simps)
       (simp add: array_sz_def)
next
  case (Suc n)
  then have lt: "i < length (data src)" and rest: "n = length (data src) - Suc i"
    by simp_all
  have lt_out: "i < length (data out)" and lt_other: "i < length (data x_1)"
    using lt Suc.prems by simp_all
  have len: "length (data (Array ((data out)[i := f (data x_1 ! i) (data src ! i)])))
      = length (data src)"
    using Suc.prems by simp
  show ?case
    by (subst l___private_init_data_array_basic_1__iterate__aux___main___at_array_map_u_2082___spec__1___rarg.simps)
       (simp add: array_sz_def array_read_def array_write_def lt lt_out lt_other upt_conv_Cons
          Suc.hyps(1) [OF rest len Suc.prems(2)] take_Suc_update)
qed

lemma map2_spec_2_run:
  "length (data out) = length (data src) \<Longrightarrow> length (data src) \<le> length (data x_2) \<Longrightarrow>
   l___private_init_data_array_basic_1__iterate__aux___main___at_array_map_u_2082___spec__2___rarg f x_1 x_2 src i out
     = Some (Array (take i (data out)
          @ map (\<lambda>k. f (data x_2 ! k) (data src ! k)) [i..<length (data src)]))"
proof (induction "length (data src) - i" arbitrary: i out)
  case 0
  then show ?case
    by (subst l___private_init_data_array_basic_1__iterate__aux___main___at_array_map_u_2082___spec__2___rarg.simps)
       (simp add: array_sz_def)
next
  case (Suc n)
  then have lt: "i < length (data src)" and rest: "n = length (data src) - Suc i"
    by simp_all
  have lt_out: "i < length (data out)" and lt_other: "i < length (data x_2)"
    using lt Suc.prems by simp_all
  have len: "length (data (Array ((data out)[i := f (data x_2 ! i) (data src ! i)])))
      = length (data src)"
    using Suc.prems by simp
  show ?case
    by (subst l___private_init_data_array_basic_1__iterate__aux___main___at_array_map_u_2082___spec__2___rarg.simps)
       (simp add: array_sz_def array_read_def array_write_def lt lt_out lt_other upt_conv_Cons
          Suc.hyps(1) [OF rest len Suc.prems(2)] take_Suc_update)
qed

text \<open>
  What \<open>map\<^sub>2 f a b\<close> returns. When \<open>b\<close> is strictly shorter, \<open>b\<close> is rewritten with
  \<open>f a[k] b[k]\<close>; when \<open>a\<close> is shorter or as long, \<open>a\<close> is rewritten with \<open>f b[k] a[k]\<close>:
  the second loop hands the callable the element of \<open>b\<close> first.
\<close>

lemma map2_data:
  "l_array_map_u_2082___rarg f a b =
     (if length (data b) < length (data a)
      then Some (Array (map (\<lambda>k. f (data a ! k) (data b ! k)) [0..<length (data b)]))
      else Some (Array (map (\<lambda>k. f (data b ! k) (data a ! k)) [0..<length (data a)])))"
  by (simp add: l_array_map_u_2082___rarg_def array_get_size_def map2_spec_1_run map2_spec_2_run
      not_le less_imp_le)

text \<open>
  C2 says that the element written at position \<open>i\<close> is \<open>f a[i] b[i]\<close> whichever array
  is the shorter one. The code at subtraction, \<open>a = [1]\<close> and \<open>b = [10, 20]\<close> writes
  \<open>b[0] - a[0] = 9\<close> where the claim has \<open>a[0] - b[0] = -9\<close>; with the operands
  exchanged, so that the second one is the shorter, it writes \<open>a[0] - b[0] = 9\<close> as the
  claim says.
\<close>

theorem map2_argument_order_at_shorter_first_operand:
  "l_array_map_u_2082___rarg (-) (Array [1 :: int]) (Array [10, 20]) = Some (Array [9])
   \<and> l_array_map_u_2082___rarg (-) (Array [10, 20 :: int]) (Array [1]) = Some (Array [9])"
  by code_simp

text \<open>
  C3: for all arrays \<open>a\<close> and \<open>b\<close> and every \<open>f\<close>, the length of \<open>map\<^sub>2 f a b\<close> is the
  minimum of the two lengths, so the output is never longer than either input.
\<close>

theorem map2_length_is_min:
  "map_option array_get_size (l_array_map_u_2082___rarg f a b)
     = Some (min (array_get_size a) (array_get_size b))"
  by (simp add: map2_data array_get_size_def)

subsection \<open>Re-reading the length against capturing it\<close>

lemma iterate_aux_same:
  "l___private_init_data_array_basic_1__iterate__aux___main___rarg a f i acc
     = iterate_aux_captured_bound a f (array_get_size a) i acc"
proof (induction "length (data a) - i" arbitrary: i acc)
  case 0
  then show ?case
    by (subst l___private_init_data_array_basic_1__iterate__aux___main___rarg.simps,
        subst iterate_aux_captured_bound.simps)
       (simp add: array_sz_def array_get_size_def)
next
  case (Suc n)
  then have lt: "i < length (data a)" and rest: "n = length (data a) - Suc i"
    by simp_all
  show ?case
    by (subst l___private_init_data_array_basic_1__iterate__aux___main___rarg.simps,
        subst iterate_aux_captured_bound.simps)
       (simp add: array_sz_def array_get_size_def array_read_def lt Suc.hyps(1) [OF rest])
qed

lemma iterate_aux_run:
  "l___private_init_data_array_basic_1__iterate__aux___main___rarg a f i acc
     = Some (fold (\<lambda>k. f k (data a ! k)) [i..<length (data a)] acc)"
proof (induction "length (data a) - i" arbitrary: i acc)
  case 0
  then show ?case
    by (subst l___private_init_data_array_basic_1__iterate__aux___main___rarg.simps)
       (simp add: array_sz_def)
next
  case (Suc n)
  then have lt: "i < length (data a)" and rest: "n = length (data a) - Suc i"
    by simp_all
  show ?case
    by (subst l___private_init_data_array_basic_1__iterate__aux___main___rarg.simps)
       (simp add: array_sz_def array_read_def lt upt_conv_Cons Suc.hyps(1) [OF rest])
qed

text \<open>
  C10: for every array \<open>a\<close>, callable \<open>f\<close> and initial accumulator \<open>z\<close>, the forward engine,
  which re-reads the length before every step, returns the same final accumulator as the
  variant that captures the length once at entry. Both return: the result is the fold of the
  callable over the indices \<open>0, ..., n-1\<close> and their elements.
\<close>

theorem iterate_recheck_equals_captured_bound:
  "l_array_iterate___rarg a z f = iterate_captured_bound a z f
   \<and> l_array_iterate___rarg a z f
       = Some (fold (\<lambda>k. f k (data a ! k)) [0..<array_get_size a] z)"
proof
  show "l_array_iterate___rarg a z f = iterate_captured_bound a z f"
    by (simp add: l_array_iterate___rarg_def iterate_captured_bound_def iterate_aux_same)
  show "l_array_iterate___rarg a z f
      = Some (fold (\<lambda>k. f k (data a ! k)) [0..<array_get_size a] z)"
    by (simp add: l_array_iterate___rarg_def iterate_aux_run array_get_size_def)
qed

subsection \<open>The worked examples of the specification\<close>

text \<open>
  The examples evaluate by the code equations alone. Addition is commutative, so the first
  one does not tell the two argument orders of the left fold apart.
\<close>

lemma example_foldl_sum:
  "l_array_foldl___rarg (Array [1, 2, 3 :: int]) 0 (+) = Some 6"
  by code_simp

lemma example_rev_foldl_difference:
  "l_array_rev__foldl___rarg (Array [1, 2, 3 :: int]) 0 (-) = Some 2"
  by code_simp

lemma example_map2_truncates:
  "l_array_map_u_2082___rarg (+) (Array [1, 2, 3, 4 :: int]) (Array [10, 20])
     = Some (Array [11, 22])"
  by code_simp

lemma example_empty_traversals:
  "l_array_iterate___rarg (Array ([] :: int list)) (z :: int) f = Some z"
  "l_array_rev__iterate___rarg (Array ([] :: int list)) (z :: int) f = Some z"
  by (simp_all add: l_array_iterate___rarg_def l_array_rev__iterate___rarg_def
      array_get_size_def array_sz_def
      l___private_init_data_array_basic_1__iterate__aux___main___rarg.simps
      l___private_init_data_array_basic_2__rev__iterate__aux___main___rarg.simps)

lemma example_list_bridge_empty:
  "l_list_to__array___rarg ([] :: int list) = mk_nil_array"
  "array_get_size (l_list_to__array___rarg ([] :: int list)) = 0"
  by (simp_all add: l_list_to__array___rarg_def l_array_nil___closed__1_def mk_nil_array_def
      array_get_size_def)

end
